theory Spec2Isabelle
  imports
    Main
    "HOL-Library.Multiset"
    "HOL-Library.Char_ord"
    "HOL-Library.List_Lexorder"
    "HOL-Library.Sublist"
begin

section \<open>Documents of the blood-donation backend (models.js)\<close>

text \<open>
  Every collection of the document store is a list of documents in the store's natural
  (insertion) order. An ObjectId is a natural number and a Date is a natural number of
  milliseconds. String-valued schema paths stay strings, an optional path is an
  \<open>option\<close>. The schema option \<open>timestamps: true\<close> of RequestSchema also keeps an
  \<open>updatedAt\<close> path that no route reads; the record has \<open>createdAt\<close> only.
\<close>

type_synonym object_id = nat
type_synonym date = nat

text \<open>
  A schema path of type Number holds a JavaScript Number, that is an IEEE 754 double. The
  routes only count units, so the model has the whole-valued Numbers: \<open>Finite n\<close> is the
  double of value \<open>n\<close>, beside the two infinities and NaN. \<open>toNumber\<close> rounds a whole
  number to the nearest double, ties to the even significand of 53 bits, and to an
  infinity from \<open>2 ^ 1024\<close> on; it is what \<open>JSON.parse\<close> makes of an integer literal and
  what \<open>+\<close> makes of the exact sum of two doubles.
\<close>

datatype number = Finite int | PosInfinity | NegInfinity | NaN






record user =
  u_id :: object_id
  u_full_name :: string
  u_email :: string
  u_phone :: string
  u_password_hash :: string
  u_role :: string
  u_blood_type :: string
  u_region :: "string option"

record donation =
  dl_date :: date
  dl_units :: number
  dl_notes :: string

record donor =
  d_user_id :: object_id
  d_availability :: bool
  d_last_donation_date :: "date option"
  d_reputation :: int
  d_donation_log :: "donation list"

record blood_inventory =
  i_blood_type :: string
  i_available_units :: number
  i_status :: string

record approver =
  a_name :: string
  a_phone :: string

record request =
  r_id :: object_id
  r_requester_id :: object_id
  r_blood_group :: string
  r_region :: string
  r_hospital :: string
  r_notes :: string
  r_status :: string
  r_approved_by :: "approver option"
  r_createdAt :: date

record notification =
  n_title :: string
  n_message :: string
  n_role :: string
  n_region :: "string option"
  n_isRead :: bool
  n_createdAt :: date

record store =
  users :: "user list"
  donors :: "donor list"
  inventory :: "blood_inventory list"
  requests :: "request list"
  notifications :: "notification list"

text \<open>The enum lists of the schemas.\<close>

definition bloodTypes :: "string list" where
  "bloodTypes = [''A+'', ''A-'', ''B+'', ''B-'', ''O+'', ''O-'', ''AB+'', ''AB-'']"

definition regions :: "string list" where
  "regions = [''North'', ''East'', ''West'', ''South'']"

definition statusEnum :: "string list" where
  "statusEnum = [''Pending'', ''Approved'', ''Fulfilled'', ''Critical'']"

definition notificationRoles :: "string list" where
  "notificationRoles = [''user'', ''donor'', ''admin'', ''all'']"

section \<open>Requests, responses and the store interface\<close>

text \<open>
  A route runs after \<open>protect\<close> has verified the bearer token and put the decoded
  payload \<open>{id, role}\<close> into \<open>req.user\<close>. Body and query fields that the routes use as
  strings are a JSON string or absent (\<open>None\<close>); \<open>availability\<close>, which the route
  compares against both a boolean and a string, is a JSON value.
\<close>

record identity =
  id_of :: object_id
  role_of :: string

datatype jsval = JUndefined | JNull | JBool bool | JNum int | JStr string

text \<open>What a \<open>catch\<close> block can receive, and the message of a response: a literal of
  routes.js or the \<open>error.message\<close> of the caught error.\<close>

datatype exn = ValidationError | TypeError

datatype message = Msg string | ErrorMessage exn

record 'a response =
  res_success :: bool
  res_message :: message
  res_data :: "'a option"
  res_status :: nat

definition sendResponse :: "bool \<Rightarrow> message \<Rightarrow> 'a option \<Rightarrow> nat \<Rightarrow> 'a response" where
  "sendResponse success msg dat status =
     \<lparr>res_success = success, res_message = msg, res_data = dat, res_status = status\<rparr>"

definition restrictTo :: "string list \<Rightarrow> identity \<Rightarrow> bool" where
  "restrictTo roles idt = (role_of idt \<in> set roles)"

definition forbidden :: "'a response" where
  "forbidden = sendResponse False (Msg ''Forbidden: You do not have permission'') None 403"

text \<open>JavaScript truthiness of a string that may be absent: \<open>undefined\<close> and the empty
  string are falsy.\<close>

definition truthy :: "string option \<Rightarrow> bool" where
  "truthy v = (case v of None \<Rightarrow> False | Some s \<Rightarrow> s \<noteq> [])"

definition or_default :: "string option \<Rightarrow> string \<Rightarrow> string" where
  "or_default v d = (case v of None \<Rightarrow> d | Some s \<Rightarrow> if s = [] then d else s)"

definition findById :: "('a \<Rightarrow> object_id) \<Rightarrow> 'a list \<Rightarrow> object_id \<Rightarrow> 'a option" where
  "findById key docs i = List.find (\<lambda>d. key d = i) docs"

text \<open>\<open>findOne\<close> is \<open>List.find\<close>. Saving a loaded document, and \<open>findOneAndUpdate\<close>,
  write the first document of the collection that the filter selects.\<close>

fun update_first :: "('a \<Rightarrow> bool) \<Rightarrow> ('a \<Rightarrow> 'a) \<Rightarrow> 'a list \<Rightarrow> 'a list" where
  "update_first P f [] = []"
| "update_first P f (x # xs) = (if P x then f x # xs else x # update_first P f xs)"

text \<open>\<open>.sort({createdAt: -1})\<close>: descending by the key. Among equal keys the store
  promises no order; the model puts the later document first.\<close>

definition sort_desc :: "('a \<Rightarrow> nat) \<Rightarrow> 'a list \<Rightarrow> 'a list" where
  "sort_desc key xs = rev (sort_key key xs)"

definition newest_first :: "('a \<Rightarrow> nat) \<Rightarrow> 'a list \<Rightarrow> bool" where
  "newest_first key xs = sorted_wrt (\<lambda>a b. key b \<le> key a) xs"

definition fresh_id :: "request list \<Rightarrow> object_id" where
  "fresh_id rs = Suc (fold max (map r_id rs) 0)"

section \<open>POST /requests\<close>

record request_body =
  b_blood_group :: "string option"
  b_region :: "string option"
  b_hospital :: "string option"
  b_status :: "string option"
  b_notes :: "string option"

text \<open>\<open>Request.create\<close> validates the new document against RequestSchema:
  \<open>blood_group\<close> and \<open>status\<close> are enums, \<open>region\<close> is required, and an absent
  \<open>status\<close> takes the default.\<close>

definition Request_create ::
  "date \<Rightarrow> object_id \<Rightarrow> object_id \<Rightarrow> string \<Rightarrow> string \<Rightarrow> string option \<Rightarrow> string \<Rightarrow> string
     \<Rightarrow> exn + request" where
  "Request_create now new_id requester bg rg st hospital notes =
     (if bg \<notin> set bloodTypes \<or> rg = [] then Inl ValidationError
      else case st of
        None \<Rightarrow> Inr \<lparr>r_id = new_id, r_requester_id = requester, r_blood_group = bg,
                     r_region = rg, r_hospital = hospital, r_notes = notes,
                     r_status = ''Pending'', r_approved_by = None, r_createdAt = now\<rparr>
      | Some s \<Rightarrow>
          if s \<in> set statusEnum
          then Inr \<lparr>r_id = new_id, r_requester_id = requester, r_blood_group = bg,
                    r_region = rg, r_hospital = hospital, r_notes = notes,
                    r_status = s, r_approved_by = None, r_createdAt = now\<rparr>
          else Inl ValidationError)"

definition matching_donor :: "string \<Rightarrow> string \<Rightarrow> user \<Rightarrow> bool" where
  "matching_donor bg rg u =
     (u_role u = ''donor'' \<and> u_blood_type u = bg \<and> u_region u = Some rg)"

definition request_notification :: "date \<Rightarrow> string \<Rightarrow> string \<Rightarrow> notification" where
  "request_notification now bg rg =
     \<lparr>n_title = ''New Matching Request'',
      n_message = ''A new request for '' @ bg @ '' has been posted in your region ('' @ rg @ '').'',
      n_role = ''donor'', n_region = Some rg, n_isRead = False, n_createdAt = now\<rparr>"

definition notification_valid :: "notification \<Rightarrow> bool" where
  "notification_valid n =
     (n_title n \<noteq> [] \<and> n_message n \<noteq> [] \<and> n_role n \<in> set notificationRoles
      \<and> (case n_region n of None \<Rightarrow> True | Some g \<Rightarrow> g \<in> set regions))"

text \<open>\<open>Notification.insertMany\<close> validates every document first and inserts none when one
  of them fails. The paths \<open>type\<close> and \<open>status\<close> that the route puts into the objects are
  not in NotificationSchema and are dropped. One reading of the clock, \<open>now\<close>, stamps
  the request and the notifications of a call.\<close>

definition Notification_insertMany :: "notification list \<Rightarrow> exn + notification list" where
  "Notification_insertMany ns = (if list_all notification_valid ns then Inr ns else Inl ValidationError)"

definition submitRequest ::
  "date \<Rightarrow> identity \<Rightarrow> request_body \<Rightarrow> store \<Rightarrow> request response \<times> store" where
  "submitRequest now idt b s =
     (if \<not> restrictTo [''user''] idt then (forbidden, s)
      else if \<not> truthy (b_blood_group b) \<or> \<not> truthy (b_region b)
      then (sendResponse False (Msg ''Blood group and region are required'') None 400, s)
      else
        let bg = or_default (b_blood_group b) [];
            rg = or_default (b_region b) []
        in case Request_create now (fresh_id (requests s)) (id_of idt) bg rg (b_status b)
                  (or_default (b_hospital b) []) (or_default (b_notes b) []) of
             Inl e \<Rightarrow> (sendResponse False (ErrorMessage e) None 500, s)
           | Inr newRequest \<Rightarrow>
               let s1 = s\<lparr>requests := requests s @ [newRequest]\<rparr>;
                   donorUsers = filter (matching_donor bg rg) (users s1);
                   ns = map (\<lambda>u. request_notification now bg rg) donorUsers
               in if ns \<noteq> []
                  then (case Notification_insertMany ns of
                          Inl e \<Rightarrow> (sendResponse False (ErrorMessage e) None 500, s1)
                        | Inr docs \<Rightarrow>
                            (sendResponse True (Msg ''Blood request submitted'') (Some newRequest) 201,
                             s1\<lparr>notifications := notifications s1 @ docs\<rparr>))
                  else (sendResponse True (Msg ''Blood request submitted'') (Some newRequest) 201, s1))"

section \<open>POST /requests/:id/status\<close>

definition validStatuses :: "string list" where
  "validStatuses = [''Pending'', ''Approved'', ''Fulfilled'', ''Critical'']"

definition invalid_status_message :: message where
  "invalid_status_message =
     Msg ''Invalid status. Valid options: Pending, Approved, Fulfilled, Critical''"

text \<open>The route is behind \<open>protect\<close> only. A missing approver makes
  \<open>approver.full_name\<close> throw before anything is saved. \<open>request.save()\<close> writes the
  loaded document back; its enum paths were validated when it was created and the new
  status has just been checked.\<close>

definition updateRequestStatus ::
  "identity \<Rightarrow> object_id \<Rightarrow> string option \<Rightarrow> store \<Rightarrow> request response \<times> store" where
  "updateRequestStatus idt rid status s =
     (case status of
        None \<Rightarrow> (sendResponse False invalid_status_message None 400, s)
      | Some st \<Rightarrow>
          if st = [] \<or> st \<notin> set validStatuses
          then (sendResponse False invalid_status_message None 400, s)
          else case findById r_id (requests s) rid of
            None \<Rightarrow> (sendResponse False (Msg ''Request not found'') None 404, s)
          | Some request \<Rightarrow>
              if st = ''Approved''
              then (case findById u_id (users s) (id_of idt) of
                      None \<Rightarrow> (sendResponse False (ErrorMessage TypeError) None 500, s)
                    | Some approver \<Rightarrow>
                        let request' = request\<lparr>r_approved_by :=
                                Some \<lparr>a_name = u_full_name approver, a_phone = u_phone approver\<rparr>,
                              r_status := st\<rparr>
                        in (sendResponse True (Msg ''Request status updated successfully'')
                              (Some request') 200,
                            s\<lparr>requests := update_first (\<lambda>r. r_id r = rid) (\<lambda>r. request') (requests s)\<rparr>))
              else
                let request' = request\<lparr>r_status := st\<rparr>
                in (sendResponse True (Msg ''Request status updated successfully'')
                      (Some request') 200,
                    s\<lparr>requests := update_first (\<lambda>r. r_id r = rid) (\<lambda>r. request') (requests s)\<rparr>))"

section \<open>GET /requests and GET /requests/user\<close>

text \<open>\<open>populate("requester_id", "full_name blood_type phone region")\<close> joins the
  requester's summary onto each request, \<open>null\<close> when the user is gone. The model keeps
  the stored request beside the joined summary.\<close>

record requester =
  q_id :: object_id
  q_full_name :: string
  q_blood_type :: string
  q_phone :: string
  q_region :: "string option"

record populated_request =
  pr_doc :: request
  pr_requester :: "requester option"

definition populate :: "user list \<Rightarrow> request \<Rightarrow> populated_request" where
  "populate us r =
     \<lparr>pr_doc = r,
      pr_requester =
        (case findById u_id us (r_requester_id r) of
           None \<Rightarrow> None
         | Some u \<Rightarrow> Some \<lparr>q_id = u_id u, q_full_name = u_full_name u,
                           q_blood_type = u_blood_type u, q_phone = u_phone u,
                           q_region = u_region u\<rparr>)\<rparr>"

definition listRequests :: "identity \<Rightarrow> store \<Rightarrow> populated_request list response" where
  "listRequests idt s =
     (if role_of idt = ''admin''
      then sendResponse True (Msg ''Requests fetched successfully'')
             (Some (map (populate (users s)) (sort_desc r_createdAt (requests s)))) 200
      else if role_of idt = ''donor''
      then (case findById u_id (users s) (id_of idt) of
              None \<Rightarrow> sendResponse False (ErrorMessage TypeError) None 500
            | Some donor \<Rightarrow>
                if \<not> truthy (u_region donor)
                then sendResponse False (Msg ''Donor region not set'') None 400
                else sendResponse True (Msg ''Requests fetched successfully'')
                       (Some (map (populate (users s))
                          (sort_desc r_createdAt
                             (filter (\<lambda>r. Some (r_region r) = u_region donor) (requests s))))) 200)
      else sendResponse True (Msg ''Requests fetched successfully'')
             (Some (map (populate (users s))
                (sort_desc r_createdAt
                   (filter (\<lambda>r. r_requester_id r = id_of idt) (requests s))))) 200)"

definition listUserRequests :: "identity \<Rightarrow> store \<Rightarrow> request list response" where
  "listUserRequests idt s =
     (if \<not> restrictTo [''user''] idt then forbidden
      else sendResponse True (Msg ''Fetched user requests'')
             (Some (filter (\<lambda>r. r_requester_id r = id_of idt) (requests s))) 200)"

section \<open>GET /donors/search\<close>

text \<open>\<open>new RegExp(name, "i")\<close> belongs to the JavaScript engine: the route is given it as
  a function that yields the matcher of a pattern, or nothing when the pattern is not a
  regular expression and the constructor throws. \<open>select("-password_hash -__v")\<close> drops
  the hash from each user before the availability of its Donor document is joined on.\<close>

type_synonym regexp = "string \<Rightarrow> (string \<Rightarrow> bool) option"

record donor_query =
  dq_blood_type :: "string option"
  dq_name :: "string option"
  dq_region :: "string option"

record donor_hit =
  h_id :: object_id
  h_full_name :: string
  h_email :: string
  h_phone :: string
  h_role :: string
  h_blood_type :: string
  h_region :: "string option"
  h_availability :: "bool option"

definition with_availability :: "donor list \<Rightarrow> user \<Rightarrow> donor_hit" where
  "with_availability ds u =
     \<lparr>h_id = u_id u, h_full_name = u_full_name u, h_email = u_email u, h_phone = u_phone u,
      h_role = u_role u, h_blood_type = u_blood_type u, h_region = u_region u,
      h_availability =
        (case List.find (\<lambda>d. d_user_id d = u_id u) ds of
           None \<Rightarrow> None
         | Some d \<Rightarrow> Some (d_availability d))\<rparr>"

definition userQuery :: "donor_query \<Rightarrow> (string \<Rightarrow> bool) \<Rightarrow> user \<Rightarrow> bool" where
  "userQuery q name_matches u =
     (u_role u = ''donor''
      \<and> (truthy (dq_blood_type q) \<longrightarrow> Some (u_blood_type u) = dq_blood_type q)
      \<and> (truthy (dq_region q) \<longrightarrow> u_region u = dq_region q)
      \<and> (truthy (dq_name q) \<longrightarrow> name_matches (u_full_name u)))"

definition searchDonors ::
  "regexp \<Rightarrow> identity \<Rightarrow> donor_query \<Rightarrow> store \<Rightarrow> donor_hit list response" where
  "searchDonors regExp idt q s =
     (if \<not> restrictTo [''admin'', ''user''] idt then forbidden
      else case (if truthy (dq_name q) then regExp (or_default (dq_name q) [])
                 else Some (\<lambda>_. True)) of
        None \<Rightarrow> sendResponse False (Msg ''Failed to fetch donors'') None 500
      | Some name_matches \<Rightarrow>
          let found = sort_key u_full_name (filter (userQuery q name_matches) (users s));
              donorsWithAvailability = map (with_availability (donors s)) found
          in if donorsWithAvailability = []
             then sendResponse True (Msg ''No donors found for given criteria'') (Some []) 200
             else sendResponse True (Msg ''Donor search results'') (Some donorsWithAvailability) 200)"

section \<open>POST /donors/donate and PUT /donors/availability\<close>

record donate_body =
  db_units :: "int option"
  db_notes :: "string option"





definition setAvailability ::
  "identity \<Rightarrow> jsval \<Rightarrow> store \<Rightarrow> bool response \<times> store" where
  "setAvailability idt v s =
     (if \<not> restrictTo [''donor''] idt then (forbidden, s)
      else
        let availability = (v = JBool True \<or> v = JStr ''true'')
        in case List.find (\<lambda>d. d_user_id d = id_of idt) (donors s) of
             None \<Rightarrow> (sendResponse False (Msg ''Donor profile not found'') None 404, s)
           | Some donor \<Rightarrow>
               (sendResponse True (Msg ''Availability updated'') (Some availability) 200,
                s\<lparr>donors := update_first (\<lambda>d. d_user_id d = id_of idt)
                     (\<lambda>d. d\<lparr>d_availability := availability\<rparr>) (donors s)\<rparr>))"

section \<open>GET /notifications\<close>

text \<open>A filter value that is \<open>undefined\<close> reaches the store as \<open>null\<close>, which selects the
  documents whose path is \<open>null\<close> or absent: the region test is equality of optional
  strings.\<close>

definition notification_query :: "user \<Rightarrow> notification \<Rightarrow> bool" where
  "notification_query user n =
     (if u_role user = ''admin'' then True
      else if u_role user = ''donor'' \<and> truthy (u_region user)
      then n_role n = ''all'' \<or> (n_role n = ''donor'' \<and> n_region n = u_region user)
      else n_role n = ''all'' \<or> (n_role n = u_role user \<and> n_region n = u_region user))"

definition listNotifications :: "identity \<Rightarrow> store \<Rightarrow> notification list response" where
  "listNotifications idt s =
     (case findById u_id (users s) (id_of idt) of
        None \<Rightarrow> sendResponse False (Msg ''User not found'') None 404
      | Some user \<Rightarrow>
          sendResponse True (Msg ''Dashboard notifications'')
            (Some (sort_desc n_createdAt (filter (notification_query user) (notifications s)))) 200)"

section \<open>A sample store\<close>

text \<open>One requester, three donors with a Donor profile, an administrator seeded without
  a region, and a user whom an administrator made a donor afterwards (no region filter
  applies to her, and she has no Donor profile).\<close>

definition alice :: user where
  "alice = \<lparr>u_id = 1, u_full_name = ''Alice'', u_email = ''alice@example.org'',
            u_phone = ''111'', u_password_hash = ''h1'', u_role = ''user'',
            u_blood_type = ''O+'', u_region = Some ''North''\<rparr>"

definition bob :: user where
  "bob = \<lparr>u_id = 2, u_full_name = ''Bob'', u_email = ''bob@example.org'',
          u_phone = ''222'', u_password_hash = ''h2'', u_role = ''donor'',
          u_blood_type = ''O+'', u_region = Some ''North''\<rparr>"

definition carol :: user where
  "carol = \<lparr>u_id = 3, u_full_name = ''Carol'', u_email = ''carol@example.org'',
            u_phone = ''333'', u_password_hash = ''h3'', u_role = ''donor'',
            u_blood_type = ''O+'', u_region = Some ''North''\<rparr>"

definition dave :: user where
  "dave = \<lparr>u_id = 4, u_full_name = ''Dave'', u_email = ''dave@example.org'',
           u_phone = ''444'', u_password_hash = ''h4'', u_role = ''donor'',
           u_blood_type = ''A+'', u_region = Some ''East''\<rparr>"

definition root :: user where
  "root = \<lparr>u_id = 5, u_full_name = ''Root'', u_email = ''root@example.org'',
           u_phone = ''0000000000'', u_password_hash = ''h5'', u_role = ''admin'',
           u_blood_type = ''O+'', u_region = None\<rparr>"

definition erin :: user where
  "erin = \<lparr>u_id = 6, u_full_name = ''Erin'', u_email = ''erin@example.org'',
           u_phone = ''666'', u_password_hash = ''h6'', u_role = ''donor'',
           u_blood_type = ''A+'', u_region = None\<rparr>"

definition profile :: "object_id \<Rightarrow> bool \<Rightarrow> donor" where
  "profile uid avail =
     \<lparr>d_user_id = uid, d_availability = avail, d_last_donation_date = None,
      d_reputation = 5, d_donation_log = []\<rparr>"

definition req1 :: request where
  "req1 = \<lparr>r_id = 10, r_requester_id = 1, r_blood_group = ''O+'', r_region = ''North'',
           r_hospital = ''General'', r_notes = [], r_status = ''Pending'',
           r_approved_by = None, r_createdAt = 100\<rparr>"

definition req2 :: request where
  "req2 = \<lparr>r_id = 11, r_requester_id = 1, r_blood_group = ''A+'', r_region = ''East'',
           r_hospital = [], r_notes = [], r_status = ''Critical'',
           r_approved_by = None, r_createdAt = 300\<rparr>"

definition req3 :: request where
  "req3 = \<lparr>r_id = 12, r_requester_id = 7, r_blood_group = ''B-'', r_region = ''East'',
           r_hospital = [], r_notes = [], r_status = ''Pending'',
           r_approved_by = None, r_createdAt = 200\<rparr>"

definition notice :: "string \<Rightarrow> string option \<Rightarrow> date \<Rightarrow> notification" where
  "notice r g t =
     \<lparr>n_title = ''Notice'', n_message = ''Please read'', n_role = r, n_region = g,
      n_isRead = False, n_createdAt = t\<rparr>"

definition sample :: store where
  "sample =
     \<lparr>users = [alice, bob, carol, dave, root, erin],
      donors = [profile 2 True, profile 3 False, profile 4 True],
      inventory = [\<lparr>i_blood_type = ''O+'', i_available_units = Finite 5, i_status = ''Medium''\<rparr>],
      requests = [req1, req2, req3],
      notifications =
        [notice ''all'' None 10, notice ''donor'' (Some ''North'') 30,
         notice ''donor'' (Some ''East'') 20, notice ''user'' (Some ''North'') 40,
         notice ''donor'' None 5]\<rparr>"

definition as_user :: "user \<Rightarrow> identity" where
  "as_user u = \<lparr>id_of = u_id u, role_of = u_role u\<rparr>"

definition ask :: "string \<Rightarrow> string \<Rightarrow> string option \<Rightarrow> request_body" where
  "ask bg rg st =
     \<lparr>b_blood_group = Some bg, b_region = Some rg, b_hospital = None, b_status = st,
      b_notes = None\<rparr>"

definition by_type :: "string \<Rightarrow> donor_query" where
  "by_type bt = \<lparr>dq_blood_type = Some bt, dq_name = None, dq_region = None\<rparr>"

definition hit :: "user \<Rightarrow> bool option \<Rightarrow> donor_hit" where
  "hit u a =
     \<lparr>h_id = u_id u, h_full_name = u_full_name u, h_email = u_email u, h_phone = u_phone u,
      h_role = u_role u, h_blood_type = u_blood_type u, h_region = u_region u,
      h_availability = a\<rparr>"

definition gift :: "int \<Rightarrow> donate_body" where
  "gift n = \<lparr>db_units = Some n, db_notes = None\<rparr>"

section \<open>Lookup, update and sorting lemmas\<close>

lemma find_update_first_same:
  "List.find P xs = Some x \<Longrightarrow> P (f x) \<Longrightarrow> List.find P (update_first P f xs) = Some (f x)"
  by (induction xs) (auto split: if_splits)

lemma find_update_first_other:
  "(\<And>x. P x \<Longrightarrow> \<not> Q x \<and> \<not> Q (f x)) \<Longrightarrow> List.find Q (update_first P f xs) = List.find Q xs"
  by (induction xs) auto

lemma update_first_None:
  "List.find P xs = None \<Longrightarrow> update_first P f xs = xs"
  by (induction xs) (auto split: if_splits)



lemma find_SomeD: "List.find P xs = Some x \<Longrightarrow> P x \<and> x \<in> set xs"
  by (induction xs) (auto split: if_splits)

lemma mset_sort_desc: "mset (sort_desc key xs) = mset xs"
  by (simp add: sort_desc_def)

lemma set_sort_desc: "set (sort_desc key xs) = set xs"
  by (simp add: sort_desc_def)

lemma newest_first_sort_desc: "newest_first key (sort_desc key xs)"
proof -
  have "sorted (map key (sort_key key xs))"
    by (rule sorted_sort_key)
  then have "sorted_wrt (\<lambda>a b. key a \<le> key b) (sort_key key xs)"
    by (simp add: sorted_map)
  then show ?thesis
    by (simp add: newest_first_def sort_desc_def sorted_wrt_rev)
qed

lemma newest_first_map:
  "newest_first key (map f xs) = newest_first (\<lambda>x. key (f x)) xs"
  by (simp add: newest_first_def sorted_wrt_map)

section \<open>Status updates\<close>

lemmas sample_defs = sample_def alice_def bob_def carol_def dave_def root_def erin_def
  profile_def req1_def req2_def req3_def notice_def as_user_def ask_def by_type_def hit_def
  gift_def

text \<open>
  C9. \<open>updateRequestStatus\<close> looks at the status before it looks for the request: a
  status that is missing or not one of Pending, Approved, Fulfilled, Critical gives 400
  whether or not a request with the id exists; 404 is given only when the status is valid
  and no request has the id; and in both error cases the store is left as it was.
\<close>

theorem updateRequestStatus_checks_status_first:
  "((status = None \<or> (\<exists>st. status = Some st \<and> st \<notin> set validStatuses)) \<longrightarrow>
      res_status (fst (updateRequestStatus idt rid status s)) = 400
      \<and> \<not> res_success (fst (updateRequestStatus idt rid status s))
      \<and> snd (updateRequestStatus idt rid status s) = s)
   \<and> (res_status (fst (updateRequestStatus idt rid status s)) = 404 \<longrightarrow>
        (\<exists>st. status = Some st \<and> st \<in> set validStatuses)
        \<and> findById r_id (requests s) rid = None
        \<and> snd (updateRequestStatus idt rid status s) = s)"
  by (auto simp: updateRequestStatus_def sendResponse_def Let_def split: option.splits)

theorem updateRequestStatus_checks_status_first_witness:
  "res_status (fst (updateRequestStatus (as_user alice) 10 (Some ''Done'') sample)) = 400
   \<and> snd (updateRequestStatus (as_user alice) 10 (Some ''Done'') sample) = sample
   \<and> res_status (fst (updateRequestStatus (as_user alice) 10 None sample)) = 400
   \<and> res_status (fst (updateRequestStatus (as_user alice) 99 (Some ''Done'') sample)) = 400
   \<and> res_status (fst (updateRequestStatus (as_user alice) 99 (Some ''Approved'') sample)) = 404
   \<and> findById r_id (requests sample) 99 = None
   \<and> snd (updateRequestStatus (as_user alice) 99 (Some ''Approved'') sample) = sample"
proof -
  have bad: "''Done'' \<notin> set validStatuses"
    by (simp add: validStatuses_def)
  have nf: "res_status (fst (updateRequestStatus (as_user alice) 99 (Some ''Approved'') sample)) = 404"
    by (simp add: updateRequestStatus_def sendResponse_def findById_def validStatuses_def sample_defs)
  show ?thesis
    using updateRequestStatus_checks_status_first [of "Some ''Done''" "as_user alice" 10 sample]
      updateRequestStatus_checks_status_first [of "None" "as_user alice" 10 sample]
      updateRequestStatus_checks_status_first [of "Some ''Done''" "as_user alice" 99 sample]
      updateRequestStatus_checks_status_first [of "Some ''Approved''" "as_user alice" 99 sample]
      bad nf
    by simp
qed

lemma findById_update_first:
  "findById key docs i = Some x \<Longrightarrow> key y = i \<Longrightarrow>
   findById key (update_first (\<lambda>d. key d = i) (\<lambda>d. y) docs) i = Some y"
  unfolding findById_def by (rule find_update_first_same) simp_all

lemma findById_update_first_other:
  "j \<noteq> i \<Longrightarrow> key y = i \<Longrightarrow>
   findById key (update_first (\<lambda>d. key d = i) (\<lambda>d. y) docs) j = findById key docs j"
  unfolding findById_def by (rule find_update_first_other) simp

lemma findById_key: "findById key docs i = Some x \<Longrightarrow> key x = i"
  unfolding findById_def by (drule find_SomeD) simp

lemma updateRequestStatus_approve:
  assumes "findById r_id (requests s) rid = Some r"
    and "findById u_id (users s) (id_of actor) = Some a"
  shows "updateRequestStatus actor rid (Some ''Approved'') s =
           (sendResponse True (Msg ''Request status updated successfully'')
              (Some (r\<lparr>r_approved_by := Some \<lparr>a_name = u_full_name a, a_phone = u_phone a\<rparr>,
                        r_status := ''Approved''\<rparr>)) 200,
            s\<lparr>requests := update_first (\<lambda>x. r_id x = rid)
                 (\<lambda>x. r\<lparr>r_approved_by := Some \<lparr>a_name = u_full_name a, a_phone = u_phone a\<rparr>,
                          r_status := ''Approved''\<rparr>) (requests s)\<rparr>)"
  using assms by (simp add: updateRequestStatus_def validStatuses_def Let_def)

lemma updateRequestStatus_fulfil:
  assumes "findById r_id (requests s) rid = Some r"
  shows "updateRequestStatus actor rid (Some ''Fulfilled'') s =
           (sendResponse True (Msg ''Request status updated successfully'')
              (Some (r\<lparr>r_status := ''Fulfilled''\<rparr>)) 200,
            s\<lparr>requests := update_first (\<lambda>x. r_id x = rid)
                 (\<lambda>x. r\<lparr>r_status := ''Fulfilled''\<rparr>) (requests s)\<rparr>)"
  using assms by (simp add: updateRequestStatus_def validStatuses_def Let_def)

text \<open>
  C3. For an existing request and an acting user whose User record exists, a status
  update to Approved stamps \<open>approved_by\<close> with the name and phone of the actor's current
  record, and a following update of the same request to Fulfilled (by any caller) changes
  the status and nothing else: \<open>approved_by\<close> still holds the approver.
\<close>

theorem approved_by_stamped_and_kept:
  assumes "findById r_id (requests s) rid = Some r"
    and "findById u_id (users s) (id_of actor) = Some a"
    and "s1 = snd (updateRequestStatus actor rid (Some ''Approved'') s)"
    and "s2 = snd (updateRequestStatus actor' rid (Some ''Fulfilled'') s1)"
  shows "res_success (fst (updateRequestStatus actor rid (Some ''Approved'') s))
       \<and> findById r_id (requests s1) rid =
           Some (r\<lparr>r_approved_by := Some \<lparr>a_name = u_full_name a, a_phone = u_phone a\<rparr>,
                   r_status := ''Approved''\<rparr>)
       \<and> res_success (fst (updateRequestStatus actor' rid (Some ''Fulfilled'') s1))
       \<and> findById r_id (requests s2) rid =
           Some (r\<lparr>r_approved_by := Some \<lparr>a_name = u_full_name a, a_phone = u_phone a\<rparr>,
                   r_status := ''Fulfilled''\<rparr>)"
proof -
  let ?stamp = "r\<lparr>r_approved_by := Some \<lparr>a_name = u_full_name a, a_phone = u_phone a\<rparr>,
                   r_status := ''Approved''\<rparr>"
  have rid: "r_id r = rid"
    using assms(1) by (rule findById_key)
  have step1: "updateRequestStatus actor rid (Some ''Approved'') s =
      (sendResponse True (Msg ''Request status updated successfully'') (Some ?stamp) 200,
       s\<lparr>requests := update_first (\<lambda>x. r_id x = rid) (\<lambda>x. ?stamp) (requests s)\<rparr>)"
    using assms(1,2) by (rule updateRequestStatus_approve)
  have found1: "findById r_id (requests s1) rid = Some ?stamp"
    using assms(1) rid by (simp add: assms(3) step1 findById_update_first)
  have step2: "updateRequestStatus actor' rid (Some ''Fulfilled'') s1 =
      (sendResponse True (Msg ''Request status updated successfully'')
         (Some (?stamp\<lparr>r_status := ''Fulfilled''\<rparr>)) 200,
       s1\<lparr>requests := update_first (\<lambda>x. r_id x = rid)
            (\<lambda>x. ?stamp\<lparr>r_status := ''Fulfilled''\<rparr>) (requests s1)\<rparr>)"
    using found1 by (rule updateRequestStatus_fulfil)
  have found2: "findById r_id (requests s2) rid = Some (?stamp\<lparr>r_status := ''Fulfilled''\<rparr>)"
    unfolding assms(4) step2 using found1 rid by (simp add: findById_update_first)
  have ok1: "res_success (fst (updateRequestStatus actor rid (Some ''Approved'') s))"
    by (simp add: step1 sendResponse_def)
  have ok2: "res_success (fst (updateRequestStatus actor' rid (Some ''Fulfilled'') s1))"
    by (simp add: step2 sendResponse_def)
  from ok1 found1 ok2 found2 show ?thesis
    by simp
qed

theorem approved_by_stamped_and_kept_witness:
  "findById r_id (requests sample) 10 = Some req1
   \<and> findById u_id (users sample) (id_of (as_user root)) = Some root
   \<and> findById r_id
        (requests (snd (updateRequestStatus (as_user alice) 10 (Some ''Fulfilled'')
           (snd (updateRequestStatus (as_user root) 10 (Some ''Approved'') sample))))) 10 =
       Some (req1\<lparr>r_approved_by := Some \<lparr>a_name = ''Root'', a_phone = ''0000000000''\<rparr>,
                  r_status := ''Fulfilled''\<rparr>)"
proof -
  have r: "findById r_id (requests sample) 10 = Some req1"
    by (simp add: findById_def sample_defs)
  have a: "findById u_id (users sample) (id_of (as_user root)) = Some root"
    by (simp add: findById_def sample_defs)
  show ?thesis
    using approved_by_stamped_and_kept [OF r a refl refl, of "as_user alice"] r a
    by (simp add: root_def)
qed

section \<open>Availability\<close>

text \<open>
  C10. For a donor caller \<open>setAvailability\<close> answers 200 or 404 and nothing else, whatever
  JSON value is supplied. When the caller has a Donor profile the stored flag becomes true
  exactly when the value is the boolean \<open>true\<close> or the string \<open>"true"\<close>, and false for
  every other value (an absent field included); the other profiles are untouched. 404 is
  answered only when the caller has no Donor profile, and then the store is unchanged.
\<close>

theorem setAvailability_coerces:
  assumes "role_of idt = ''donor''"
  shows "(List.find (\<lambda>d. d_user_id d = id_of idt) (donors s) = None \<longrightarrow>
            res_status (fst (setAvailability idt v s)) = 404
            \<and> snd (setAvailability idt v s) = s)
       \<and> (\<forall>d. List.find (\<lambda>d. d_user_id d = id_of idt) (donors s) = Some d \<longrightarrow>
            res_success (fst (setAvailability idt v s))
            \<and> res_status (fst (setAvailability idt v s)) = 200
            \<and> res_data (fst (setAvailability idt v s)) = Some (v = JBool True \<or> v = JStr ''true'')
            \<and> List.find (\<lambda>d. d_user_id d = id_of idt) (donors (snd (setAvailability idt v s)))
                = Some (d\<lparr>d_availability := (v = JBool True \<or> v = JStr ''true'')\<rparr>)
            \<and> (\<forall>j. j \<noteq> id_of idt \<longrightarrow>
                  List.find (\<lambda>d. d_user_id d = j) (donors (snd (setAvailability idt v s)))
                  = List.find (\<lambda>d. d_user_id d = j) (donors s)))
       \<and> (res_status (fst (setAvailability idt v s)) = 200
            \<or> res_status (fst (setAvailability idt v s)) = 404)
       \<and> (res_status (fst (setAvailability idt v s)) = 404 \<longrightarrow>
            List.find (\<lambda>d. d_user_id d = id_of idt) (donors s) = None)"
proof (cases "List.find (\<lambda>d. d_user_id d = id_of idt) (donors s)")
  case None
  then show ?thesis
    using assms by (simp add: setAvailability_def restrictTo_def sendResponse_def)
next
  case (Some d)
  let ?b = "v = JBool True \<or> v = JStr ''true''"
  have run: "setAvailability idt v s =
      (sendResponse True (Msg ''Availability updated'') (Some ?b) 200,
       s\<lparr>donors := update_first (\<lambda>d. d_user_id d = id_of idt)
            (\<lambda>d. d\<lparr>d_availability := ?b\<rparr>) (donors s)\<rparr>)"
    using assms Some by (simp add: setAvailability_def restrictTo_def Let_def)
  have me: "d_user_id d = id_of idt"
    using find_SomeD [OF Some] by simp
  have mine: "List.find (\<lambda>d. d_user_id d = id_of idt)
        (update_first (\<lambda>d. d_user_id d = id_of idt) (\<lambda>d. d\<lparr>d_availability := ?b\<rparr>) (donors s))
      = Some (d\<lparr>d_availability := ?b\<rparr>)"
    using Some me by (intro find_update_first_same) simp_all
  have others: "\<And>j. j \<noteq> id_of idt \<Longrightarrow>
      List.find (\<lambda>d. d_user_id d = j)
        (update_first (\<lambda>d. d_user_id d = id_of idt) (\<lambda>d. d\<lparr>d_availability := ?b\<rparr>) (donors s))
      = List.find (\<lambda>d. d_user_id d = j) (donors s)"
    by (rule find_update_first_other) simp
  show ?thesis
    using Some mine others by (simp add: run sendResponse_def)
qed

theorem setAvailability_coerces_witness:
  "role_of (as_user carol) = ''donor''
   \<and> List.find (\<lambda>d. d_user_id d = 3) (donors (snd (setAvailability (as_user carol) (JStr ''true'') sample)))
       = Some (profile 3 True)
   \<and> List.find (\<lambda>d. d_user_id d = 2) (donors (snd (setAvailability (as_user bob) (JStr ''yes'') sample)))
       = Some (profile 2 False)
   \<and> List.find (\<lambda>d. d_user_id d = 2) (donors (snd (setAvailability (as_user bob) JUndefined sample)))
       = Some (profile 2 False)
   \<and> res_status (fst (setAvailability (as_user erin) (JBool True) sample)) = 404
   \<and> snd (setAvailability (as_user erin) (JBool True) sample) = sample"
proof -
  have c: "List.find (\<lambda>d. d_user_id d = id_of (as_user carol)) (donors sample) = Some (profile 3 False)"
    by (simp add: sample_defs)
  have b: "List.find (\<lambda>d. d_user_id d = id_of (as_user bob)) (donors sample) = Some (profile 2 True)"
    by (simp add: sample_defs)
  have e: "List.find (\<lambda>d. d_user_id d = id_of (as_user erin)) (donors sample) = None"
    by (simp add: sample_defs)
  have ids: "id_of (as_user carol) = 3" "id_of (as_user bob) = 2"
    by (simp_all add: sample_defs)
  have roles: "role_of (as_user carol) = ''donor''" "role_of (as_user bob) = ''donor''"
      "role_of (as_user erin) = ''donor''"
    by (simp_all add: sample_defs)
  have w1: "List.find (\<lambda>d. d_user_id d = id_of (as_user carol))
              (donors (snd (setAvailability (as_user carol) (JStr ''true'') sample)))
            = Some (profile 3 False\<lparr>d_availability := (JStr ''true'' = JBool True \<or> JStr ''true'' = JStr ''true'')\<rparr>)"
    using setAvailability_coerces [OF roles(1), of sample "JStr ''true''"] c by blast
  have w2: "List.find (\<lambda>d. d_user_id d = id_of (as_user bob))
              (donors (snd (setAvailability (as_user bob) (JStr ''yes'') sample)))
            = Some (profile 2 True\<lparr>d_availability := (JStr ''yes'' = JBool True \<or> JStr ''yes'' = JStr ''true'')\<rparr>)"
    using setAvailability_coerces [OF roles(2), of sample "JStr ''yes''"] b by blast
  have w3: "List.find (\<lambda>d. d_user_id d = id_of (as_user bob))
              (donors (snd (setAvailability (as_user bob) JUndefined sample)))
            = Some (profile 2 True\<lparr>d_availability := (JUndefined = JBool True \<or> JUndefined = JStr ''true'')\<rparr>)"
    using setAvailability_coerces [OF roles(2), of sample JUndefined] b by blast
  have w4: "res_status (fst (setAvailability (as_user erin) (JBool True) sample)) = 404
            \<and> snd (setAvailability (as_user erin) (JBool True) sample) = sample"
    using setAvailability_coerces [OF roles(3), of sample "JBool True"] e by blast
  show ?thesis
    using w1 w2 w3 w4 roles(1) by (simp add: ids profile_def)
qed

section \<open>Submitting a request\<close>

lemma insertMany_replicate:
  "Notification_insertMany (replicate k n) = Inr docs \<Longrightarrow> docs = replicate k n"
  by (simp add: Notification_insertMany_def split: if_splits)

text \<open>
  C1. When \<open>submitRequest\<close> for blood group \<open>bg\<close> and region \<open>rg\<close> succeeds, the
  notifications it adds are one copy of the templated notification (title, message naming
  \<open>bg\<close> and \<open>rg\<close>, role donor, region \<open>rg\<close>) for each stored user with role donor, blood
  type \<open>bg\<close> and region \<open>rg\<close>, and none when no such user exists.
\<close>

theorem submitRequest_fan_out:
  assumes "res_success (fst (submitRequest now idt b s))"
    and "b_blood_group b = Some bg"
    and "b_region b = Some rg"
  shows "notifications (snd (submitRequest now idt b s)) =
           notifications s @
             replicate (length (filter (\<lambda>u. u_role u = ''donor'' \<and> u_blood_type u = bg
                                             \<and> u_region u = Some rg) (users s)))
               \<lparr>n_title = ''New Matching Request'',
                n_message = ''A new request for '' @ bg @ '' has been posted in your region ('' @ rg @ '').'',
                n_role = ''donor'', n_region = Some rg, n_isRead = False, n_createdAt = now\<rparr>
       \<and> ((\<forall>u \<in> set (users s). \<not> (u_role u = ''donor'' \<and> u_blood_type u = bg \<and> u_region u = Some rg))
            \<longrightarrow> notifications (snd (submitRequest now idt b s)) = notifications s)"
proof -
  let ?match = "\<lambda>u. u_role u = ''donor'' \<and> u_blood_type u = bg \<and> u_region u = Some rg"
  let ?n = "request_notification now bg rg"
  have md: "matching_donor bg rg = ?match"
    by (auto simp: matching_donor_def)
  have tr: "truthy (b_blood_group b)" "truthy (b_region b)" "restrictTo [''user''] idt"
    using assms(1) by (auto simp: submitRequest_def forbidden_def sendResponse_def split: if_splits)
  then have od: "or_default (b_blood_group b) [] = bg" "or_default (b_region b) [] = rg"
    using assms(2,3) by (auto simp: or_default_def truthy_def)
  have ns: "map (\<lambda>u. ?n) (filter ?match (users s)) = replicate (length (filter ?match (users s))) ?n"
    by (simp add: map_replicate_const)
  have main: "notifications (snd (submitRequest now idt b s)) =
      notifications s @ replicate (length (filter ?match (users s))) ?n"
    using assms(1) tr
    by (auto simp: submitRequest_def od md ns Let_def sendResponse_def
          dest: insertMany_replicate split: sum.splits if_splits)
  have none: "(\<forall>u \<in> set (users s). \<not> ?match u) \<Longrightarrow> filter ?match (users s) = []"
    by (simp add: filter_empty_conv)
  show ?thesis
    using main none by (auto simp: request_notification_def)
qed


lemmas submit_defs = submitRequest_def restrictTo_def truthy_def or_default_def
  Request_create_def bloodTypes_def statusEnum_def fresh_id_def matching_donor_def
  request_notification_def Notification_insertMany_def notification_valid_def
  notificationRoles_def regions_def sendResponse_def forbidden_def Let_def

theorem submitRequest_fan_out_witness:
  "res_success (fst (submitRequest 500 (as_user alice) (ask ''O+'' ''North'' None) sample))
   \<and> notifications (snd (submitRequest 500 (as_user alice) (ask ''O+'' ''North'' None) sample)) =
       notifications sample @
         replicate 2
           \<lparr>n_title = ''New Matching Request'',
            n_message = ''A new request for O+ has been posted in your region (North).'',
            n_role = ''donor'', n_region = Some ''North'', n_isRead = False, n_createdAt = 500\<rparr>
   \<and> res_success (fst (submitRequest 500 (as_user alice) (ask ''B-'' ''West'' None) sample))
   \<and> notifications (snd (submitRequest 500 (as_user alice) (ask ''B-'' ''West'' None) sample)) =
       notifications sample"
proof -
  have ok1: "res_success (fst (submitRequest 500 (as_user alice) (ask ''O+'' ''North'' None) sample))"
    by (simp add: submit_defs sample_defs)
  have ok2: "res_success (fst (submitRequest 500 (as_user alice) (ask ''B-'' ''West'' None) sample))"
    by (simp add: submit_defs sample_defs)
  have two: "length (filter (\<lambda>u. u_role u = ''donor'' \<and> u_blood_type u = ''O+''
                \<and> u_region u = Some ''North'') (users sample)) = 2"
    by (simp add: sample_defs)
  have zero: "\<forall>u \<in> set (users sample). \<not> (u_role u = ''donor'' \<and> u_blood_type u = ''B-''
                \<and> u_region u = Some ''West'')"
    by (simp add: sample_defs)
  have w1: "notifications (snd (submitRequest 500 (as_user alice) (ask ''O+'' ''North'' None) sample)) =
       notifications sample @
         replicate (length (filter (\<lambda>u. u_role u = ''donor'' \<and> u_blood_type u = ''O+''
                \<and> u_region u = Some ''North'') (users sample)))
           \<lparr>n_title = ''New Matching Request'',
            n_message = ''A new request for '' @ ''O+'' @ '' has been posted in your region ('' @ ''North'' @ '').'',
            n_role = ''donor'', n_region = Some ''North'', n_isRead = False, n_createdAt = 500\<rparr>"
    using submitRequest_fan_out [OF ok1, where bg = "''O+''" and rg = "''North''"] by (simp add: ask_def)
  have w2: "notifications (snd (submitRequest 500 (as_user alice) (ask ''B-'' ''West'' None) sample)) =
       notifications sample"
    using submitRequest_fan_out [OF ok2, where bg = "''B-''" and rg = "''West''"] zero by (simp add: ask_def)
  show ?thesis
    using ok1 ok2 w1 w2 unfolding two by simp
qed

text \<open>
  C5, as the code has it. For a caller with role user, \<open>submitRequest\<close> answers 400 and
  stores nothing when the blood group or the region is missing or empty. Otherwise, when
  the blood group is one of the eight blood types of the schema and the supplied status,
  if any, is one of Pending, Approved, Fulfilled, Critical, it appends one new Request
  whose status is Pending when none was supplied and the supplied status when one was.
  A blood group or a status outside those enums is refused by the schema: the answer is
  500 and nothing is stored.
\<close>

theorem submitRequest_validates_and_persists:
  assumes "role_of idt = ''user''"
  shows "(\<not> truthy (b_blood_group b) \<or> \<not> truthy (b_region b) \<longrightarrow>
            res_status (fst (submitRequest now idt b s)) = 400
            \<and> \<not> res_success (fst (submitRequest now idt b s))
            \<and> snd (submitRequest now idt b s) = s)
       \<and> (\<forall>bg rg. b_blood_group b = Some bg \<and> bg \<in> set bloodTypes
              \<and> b_region b = Some rg \<and> rg \<noteq> []
              \<and> (\<forall>st. b_status b = Some st \<longrightarrow> st \<in> set statusEnum) \<longrightarrow>
            (\<exists>r. requests (snd (submitRequest now idt b s)) = requests s @ [r]
                 \<and> r_requester_id r = id_of idt \<and> r_blood_group r = bg \<and> r_region r = rg
                 \<and> r_status r = (case b_status b of None \<Rightarrow> ''Pending'' | Some st \<Rightarrow> st)))
       \<and> (\<forall>bg. truthy (b_blood_group b) \<and> truthy (b_region b) \<and> b_blood_group b = Some bg
              \<and> (bg \<notin> set bloodTypes \<or> (\<exists>st. b_status b = Some st \<and> st \<notin> set statusEnum)) \<longrightarrow>
            res_status (fst (submitRequest now idt b s)) = 500
            \<and> \<not> res_success (fst (submitRequest now idt b s))
            \<and> snd (submitRequest now idt b s) = s)"
proof -
  have gate: "restrictTo [''user''] idt"
    using assms by (simp add: restrictTo_def)
  have missing: "\<not> truthy (b_blood_group b) \<or> \<not> truthy (b_region b) \<Longrightarrow>
      submitRequest now idt b s =
        (sendResponse False (Msg ''Blood group and region are required'') None 400, s)"
    using gate by (auto simp: submitRequest_def)
  have persisted: "\<exists>r. requests (snd (submitRequest now idt b s)) = requests s @ [r]
                 \<and> r_requester_id r = id_of idt \<and> r_blood_group r = bg \<and> r_region r = rg
                 \<and> r_status r = (case b_status b of None \<Rightarrow> ''Pending'' | Some st \<Rightarrow> st)"
    if "b_blood_group b = Some bg" "bg \<in> set bloodTypes" "b_region b = Some rg" "rg \<noteq> []"
       "\<forall>st. b_status b = Some st \<longrightarrow> st \<in> set statusEnum" for bg rg
  proof -
    have bgne: "bg \<noteq> []"
      using that(2) by (auto simp: bloodTypes_def)
    show ?thesis
      using gate that bgne
      by (cases "b_status b")
         (auto simp: submitRequest_def truthy_def or_default_def Request_create_def Let_def
            split: sum.splits)
  qed
  have rejected: "submitRequest now idt b s = (sendResponse False (ErrorMessage ValidationError) None 500, s)"
    if "truthy (b_blood_group b)" "truthy (b_region b)" "b_blood_group b = Some bg"
       "bg \<notin> set bloodTypes \<or> (\<exists>st. b_status b = Some st \<and> st \<notin> set statusEnum)" for bg
    using gate that
    by (auto simp: submitRequest_def truthy_def or_default_def Request_create_def Let_def
          split: option.splits)
  have A: "\<not> truthy (b_blood_group b) \<or> \<not> truthy (b_region b) \<longrightarrow>
            res_status (fst (submitRequest now idt b s)) = 400
            \<and> \<not> res_success (fst (submitRequest now idt b s))
            \<and> snd (submitRequest now idt b s) = s"
  proof
    assume "\<not> truthy (b_blood_group b) \<or> \<not> truthy (b_region b)"
    then have "submitRequest now idt b s =
        (sendResponse False (Msg ''Blood group and region are required'') None 400, s)"
      by (rule missing)
    then show "res_status (fst (submitRequest now idt b s)) = 400
            \<and> \<not> res_success (fst (submitRequest now idt b s))
            \<and> snd (submitRequest now idt b s) = s"
      by (simp add: sendResponse_def)
  qed
  have B: "\<forall>bg rg. b_blood_group b = Some bg \<and> bg \<in> set bloodTypes
              \<and> b_region b = Some rg \<and> rg \<noteq> []
              \<and> (\<forall>st. b_status b = Some st \<longrightarrow> st \<in> set statusEnum) \<longrightarrow>
            (\<exists>r. requests (snd (submitRequest now idt b s)) = requests s @ [r]
                 \<and> r_requester_id r = id_of idt \<and> r_blood_group r = bg \<and> r_region r = rg
                 \<and> r_status r = (case b_status b of None \<Rightarrow> ''Pending'' | Some st \<Rightarrow> st))"
    using persisted by blast
  have C: "\<forall>bg. truthy (b_blood_group b) \<and> truthy (b_region b) \<and> b_blood_group b = Some bg
              \<and> (bg \<notin> set bloodTypes \<or> (\<exists>st. b_status b = Some st \<and> st \<notin> set statusEnum)) \<longrightarrow>
            res_status (fst (submitRequest now idt b s)) = 500
            \<and> \<not> res_success (fst (submitRequest now idt b s))
            \<and> snd (submitRequest now idt b s) = s"
  proof (intro allI impI)
    fix bg
    assume "truthy (b_blood_group b) \<and> truthy (b_region b) \<and> b_blood_group b = Some bg
              \<and> (bg \<notin> set bloodTypes \<or> (\<exists>st. b_status b = Some st \<and> st \<notin> set statusEnum))"
    then have "submitRequest now idt b s =
        (sendResponse False (ErrorMessage ValidationError) None 500, s)"
      using rejected by blast
    then show "res_status (fst (submitRequest now idt b s)) = 500
            \<and> \<not> res_success (fst (submitRequest now idt b s))
            \<and> snd (submitRequest now idt b s) = s"
      by (simp add: sendResponse_def)
  qed
  from A B C show ?thesis
    by (intro conjI)
qed

theorem submitRequest_validates_and_persists_witness:
  "role_of (as_user alice) = ''user''
   \<and> res_status (fst (submitRequest 500 (as_user alice)
        \<lparr>b_blood_group = None, b_region = Some ''North'', b_hospital = None,
         b_status = None, b_notes = None\<rparr> sample)) = 400
   \<and> (\<exists>r. requests (snd (submitRequest 500 (as_user alice) (ask ''O+'' ''North'' None) sample))
            = requests sample @ [r] \<and> r_status r = ''Pending'')
   \<and> (\<exists>r. requests (snd (submitRequest 500 (as_user alice)
                 (ask ''O+'' ''North'' (Some ''Critical'')) sample))
            = requests sample @ [r] \<and> r_status r = ''Critical'')
   \<and> res_status (fst (submitRequest 500 (as_user alice) (ask ''XX'' ''North'' None) sample)) = 500
   \<and> snd (submitRequest 500 (as_user alice) (ask ''XX'' ''North'' None) sample) = sample"
proof -
  have u: "role_of (as_user alice) = ''user''"
    by (simp add: sample_defs)
  have w1: "res_status (fst (submitRequest 500 (as_user alice)
        \<lparr>b_blood_group = None, b_region = Some ''North'', b_hospital = None,
         b_status = None, b_notes = None\<rparr> sample)) = 400"
    using submitRequest_validates_and_persists [OF u, where now = 500 and s = sample
        and b = "\<lparr>b_blood_group = None, b_region = Some ''North'', b_hospital = None,
         b_status = None, b_notes = None\<rparr>"]
    by (simp add: truthy_def)
  have w2: "\<exists>r. requests (snd (submitRequest 500 (as_user alice) (ask ''O+'' ''North'' None) sample))
            = requests sample @ [r] \<and> r_status r = ''Pending''"
    using submitRequest_validates_and_persists [OF u, where now = 500 and s = sample
        and b = "ask ''O+'' ''North'' None"]
    by (simp add: ask_def bloodTypes_def) blast
  have w3: "\<exists>r. requests (snd (submitRequest 500 (as_user alice)
                 (ask ''O+'' ''North'' (Some ''Critical'')) sample))
            = requests sample @ [r] \<and> r_status r = ''Critical''"
    using submitRequest_validates_and_persists [OF u, where now = 500 and s = sample
        and b = "ask ''O+'' ''North'' (Some ''Critical'')"]
    by (simp add: ask_def bloodTypes_def statusEnum_def) blast
  have w4: "res_status (fst (submitRequest 500 (as_user alice) (ask ''XX'' ''North'' None) sample)) = 500
   \<and> snd (submitRequest 500 (as_user alice) (ask ''XX'' ''North'' None) sample) = sample"
    using submitRequest_validates_and_persists [OF u, where now = 500 and s = sample
        and b = "ask ''XX'' ''North'' None"]
    by (simp add: ask_def bloodTypes_def truthy_def)
  from u w1 w2 w3 w4 show ?thesis
    by blast
qed

text \<open>
  C5 as stated fails: blood group O+ and region North are present, the caller supplies
  the status Done, and no Request is stored; the answer is 500.
\<close>

theorem submitRequest_rejects_unknown_status:
  "role_of (as_user alice) = ''user''
   \<and> truthy (b_blood_group (ask ''O+'' ''North'' (Some ''Done'')))
   \<and> truthy (b_region (ask ''O+'' ''North'' (Some ''Done'')))
   \<and> b_status (ask ''O+'' ''North'' (Some ''Done'')) = Some ''Done''
   \<and> res_status (fst (submitRequest 500 (as_user alice) (ask ''O+'' ''North'' (Some ''Done'')) sample)) = 500
   \<and> \<not> res_success (fst (submitRequest 500 (as_user alice) (ask ''O+'' ''North'' (Some ''Done'')) sample))
   \<and> snd (submitRequest 500 (as_user alice) (ask ''O+'' ''North'' (Some ''Done'')) sample) = sample"
  by (simp add: submit_defs sample_defs)

section \<open>Listing requests\<close>

lemma pr_doc_populate: "map pr_doc (map (populate us) rs) = rs"
  by (induction rs) (simp_all add: populate_def)

lemma newest_first_populate:
  "newest_first (\<lambda>p. r_createdAt (pr_doc p)) (map (populate us) rs) = newest_first r_createdAt rs"
  by (simp add: newest_first_map populate_def)

lemma populated_sorted:
  "mset (map pr_doc (map (populate us) (sort_desc r_createdAt rs))) = mset rs
   \<and> newest_first (\<lambda>p. r_createdAt (pr_doc p)) (map (populate us) (sort_desc r_createdAt rs))"
proof
  show "mset (map pr_doc (map (populate us) (sort_desc r_createdAt rs))) = mset rs"
    by (simp only: pr_doc_populate mset_sort_desc)
  show "newest_first (\<lambda>p. r_createdAt (pr_doc p)) (map (populate us) (sort_desc r_createdAt rs))"
    by (simp only: newest_first_populate newest_first_sort_desc)
qed

text \<open>The third branch of GET /requests, taken by every role other than admin and
  donor, sorts like the other two.\<close>

lemma listRequests_own_sorted:
  assumes "role_of idt \<noteq> ''admin''" and "role_of idt \<noteq> ''donor''"
  shows "\<exists>rs. res_data (listRequests idt s) = Some rs
        \<and> mset (map pr_doc rs) = mset (filter (\<lambda>r. r_requester_id r = id_of idt) (requests s))
        \<and> newest_first (\<lambda>p. r_createdAt (pr_doc p)) rs"
proof -
  have "res_data (listRequests idt s) =
      Some (map (populate (users s))
        (sort_desc r_createdAt (filter (\<lambda>r. r_requester_id r = id_of idt) (requests s))))"
    using assms by (simp add: listRequests_def sendResponse_def)
  then show ?thesis
    using populated_sorted [of "users s" "filter (\<lambda>r. r_requester_id r = id_of idt) (requests s)"]
    by blast
qed

text \<open>
  C2, as the code has it. GET /requests sorts every listing newest first by \<open>createdAt\<close>:
  all requests for an administrator, the requests of the donor's region for a donor, and
  the caller's own requests for every other role. Only the separate self-scoped route
  GET /requests/user gives a user the user's own requests unsorted, in the order in which
  the store holds them.
\<close>

theorem listRequests_sorted_for_every_role:
  "(role_of adm = ''admin'' \<longrightarrow>
      (\<exists>rs. res_data (listRequests adm s) = Some rs
            \<and> mset (map pr_doc rs) = mset (requests s)
            \<and> newest_first (\<lambda>p. r_createdAt (pr_doc p)) rs))
   \<and> (role_of dnr = ''donor'' \<and> findById u_id (users s) (id_of dnr) = Some d
         \<and> u_region d = Some g \<and> g \<noteq> [] \<longrightarrow>
      (\<exists>rs. res_data (listRequests dnr s) = Some rs
            \<and> mset (map pr_doc rs) = mset (filter (\<lambda>r. r_region r = g) (requests s))
            \<and> newest_first (\<lambda>p. r_createdAt (pr_doc p)) rs))
   \<and> (role_of usr \<noteq> ''admin'' \<and> role_of usr \<noteq> ''donor'' \<longrightarrow>
      (\<exists>rs. res_data (listRequests usr s) = Some rs
            \<and> mset (map pr_doc rs)
                = mset (filter (\<lambda>r. r_requester_id r = id_of usr) (requests s))
            \<and> newest_first (\<lambda>p. r_createdAt (pr_doc p)) rs))
   \<and> (role_of usr = ''user'' \<longrightarrow>
      (\<exists>rs. res_data (listUserRequests usr s) = Some rs
            \<and> rs = filter (\<lambda>r. r_requester_id r = id_of usr) (requests s)
            \<and> subseq rs (requests s)))"
proof (intro conjI impI)
  assume "role_of adm = ''admin''"
  then have "res_data (listRequests adm s) =
      Some (map (populate (users s)) (sort_desc r_createdAt (requests s)))"
    by (simp add: listRequests_def sendResponse_def)
  then show "\<exists>rs. res_data (listRequests adm s) = Some rs
            \<and> mset (map pr_doc rs) = mset (requests s)
            \<and> newest_first (\<lambda>p. r_createdAt (pr_doc p)) rs"
    using populated_sorted [of "users s" "requests s"] by blast
next
  assume h: "role_of dnr = ''donor'' \<and> findById u_id (users s) (id_of dnr) = Some d
         \<and> u_region d = Some g \<and> g \<noteq> []"
  have same: "(\<lambda>r. Some (r_region r) = Some g) = (\<lambda>r. r_region r = g)"
    by simp
  from h have "res_data (listRequests dnr s) =
      Some (map (populate (users s))
        (sort_desc r_createdAt (filter (\<lambda>r. r_region r = g) (requests s))))"
    by (simp add: listRequests_def sendResponse_def truthy_def same)
  then show "\<exists>rs. res_data (listRequests dnr s) = Some rs
            \<and> mset (map pr_doc rs) = mset (filter (\<lambda>r. r_region r = g) (requests s))
            \<and> newest_first (\<lambda>p. r_createdAt (pr_doc p)) rs"
    using populated_sorted [of "users s" "filter (\<lambda>r. r_region r = g) (requests s)"] by blast
next
  assume "role_of usr \<noteq> ''admin'' \<and> role_of usr \<noteq> ''donor''"
  then show "\<exists>rs. res_data (listRequests usr s) = Some rs
            \<and> mset (map pr_doc rs)
                = mset (filter (\<lambda>r. r_requester_id r = id_of usr) (requests s))
            \<and> newest_first (\<lambda>p. r_createdAt (pr_doc p)) rs"
    using listRequests_own_sorted [of usr s] by blast
next
  assume "role_of usr = ''user''"
  then have "res_data (listUserRequests usr s)
          = Some (filter (\<lambda>r. r_requester_id r = id_of usr) (requests s))"
    by (simp add: listUserRequests_def restrictTo_def sendResponse_def)
  then show "\<exists>rs. res_data (listUserRequests usr s) = Some rs
            \<and> rs = filter (\<lambda>r. r_requester_id r = id_of usr) (requests s)
            \<and> subseq rs (requests s)"
    by simp
qed

theorem listRequests_sorted_for_every_role_witness:
  "role_of (as_user root) = ''admin''
   \<and> (\<exists>rs. res_data (listRequests (as_user root) sample) = Some rs
           \<and> mset (map pr_doc rs) = mset (requests sample)
           \<and> newest_first (\<lambda>p. r_createdAt (pr_doc p)) rs)
   \<and> map pr_doc (the (res_data (listRequests (as_user root) sample))) = [req2, req3, req1]
   \<and> role_of (as_user dave) = ''donor''
   \<and> (\<exists>rs. res_data (listRequests (as_user dave) sample) = Some rs
           \<and> mset (map pr_doc rs) = mset (filter (\<lambda>r. r_region r = ''East'') (requests sample))
           \<and> newest_first (\<lambda>p. r_createdAt (pr_doc p)) rs)
   \<and> map pr_doc (the (res_data (listRequests (as_user dave) sample))) = [req2, req3]
   \<and> role_of (as_user alice) = ''user''
   \<and> (\<exists>rs. res_data (listRequests (as_user alice) sample) = Some rs
           \<and> mset (map pr_doc rs) = mset [req1, req2]
           \<and> newest_first (\<lambda>p. r_createdAt (pr_doc p)) rs)
   \<and> map pr_doc (the (res_data (listRequests (as_user alice) sample))) = [req2, req1]
   \<and> res_data (listUserRequests (as_user alice) sample) = Some [req1, req2]
   \<and> \<not> newest_first r_createdAt [req1, req2]"
proof -
  have roles: "role_of (as_user root) = ''admin''" "role_of (as_user dave) = ''donor''"
      "role_of (as_user alice) = ''user''"
      "role_of (as_user alice) \<noteq> ''admin'' \<and> role_of (as_user alice) \<noteq> ''donor''"
    by (simp_all add: sample_defs)
  have dv: "findById u_id (users sample) (id_of (as_user dave)) = Some dave"
      "u_region dave = Some ''East''" "''East'' \<noteq> []"
    by (simp_all add: findById_def sample_defs)
  have mine: "filter (\<lambda>r. r_requester_id r = id_of (as_user alice)) (requests sample) = [req1, req2]"
    by (simp add: sample_defs)
  have unsorted: "\<not> newest_first r_createdAt [req1, req2]"
    by (simp add: newest_first_def req1_def req2_def)
  have evals: "map pr_doc (the (res_data (listRequests (as_user root) sample))) = [req2, req3, req1]"
      "map pr_doc (the (res_data (listRequests (as_user dave) sample))) = [req2, req3]"
      "map pr_doc (the (res_data (listRequests (as_user alice) sample))) = [req2, req1]"
    by (simp_all add: listRequests_def sendResponse_def sort_desc_def truthy_def findById_def
          populate_def sample_defs)
  note w = listRequests_sorted_for_every_role
      [where adm = "as_user root" and dnr = "as_user dave" and usr = "as_user alice"
         and s = sample and d = dave and g = "''East''", unfolded mine]
  have w1: "\<exists>rs. res_data (listRequests (as_user root) sample) = Some rs
           \<and> mset (map pr_doc rs) = mset (requests sample)
           \<and> newest_first (\<lambda>p. r_createdAt (pr_doc p)) rs"
    using w roles(1) by blast
  have w2: "\<exists>rs. res_data (listRequests (as_user dave) sample) = Some rs
           \<and> mset (map pr_doc rs) = mset (filter (\<lambda>r. r_region r = ''East'') (requests sample))
           \<and> newest_first (\<lambda>p. r_createdAt (pr_doc p)) rs"
    using w roles(2) dv by blast
  have w3: "\<exists>rs. res_data (listRequests (as_user alice) sample) = Some rs
           \<and> mset (map pr_doc rs) = mset [req1, req2]
           \<and> newest_first (\<lambda>p. r_createdAt (pr_doc p)) rs"
    using w roles(4) by blast
  have w4: "res_data (listUserRequests (as_user alice) sample) = Some [req1, req2]"
    using w roles(3) by blast
  from roles(1-3) evals w1 w2 w3 w4 unsorted show ?thesis
    by blast
qed

text \<open>
  C2 as stated fails for \<open>listRequests\<close>: the store holds the requests of user 1 in the
  order \<open>req1\<close>, \<open>req2\<close>, and \<open>listRequests\<close> returns them to that user newest first,
  \<open>req2\<close> before \<open>req1\<close>.
\<close>

theorem listRequests_own_listing_not_in_store_order:
  "role_of (as_user alice) = ''user''
   \<and> requests sample = [req1, req2, req3]
   \<and> r_requester_id req1 = id_of (as_user alice)
   \<and> r_requester_id req2 = id_of (as_user alice)
   \<and> r_requester_id req3 \<noteq> id_of (as_user alice)
   \<and> res_data (listRequests (as_user alice) sample)
       = Some [populate (users sample) req2, populate (users sample) req1]
   \<and> pr_doc (populate (users sample) req2) = req2
   \<and> pr_doc (populate (users sample) req1) = req1
   \<and> req2 \<noteq> req1"
  by (simp add: listRequests_def sendResponse_def sort_desc_def populate_def sample_defs)

text \<open>
  C7. Every request that \<open>listRequests\<close> returns to a caller with role user has that
  caller's id as \<open>requester_id\<close>, and every request it returns to a donor whose User
  record has region \<open>g\<close> (East, say) has region \<open>g\<close>.
\<close>

theorem listRequests_role_scoped:
  "(role_of idt = ''user'' \<longrightarrow>
      (\<exists>rs. res_data (listRequests idt s) = Some rs
            \<and> (\<forall>p \<in> set rs. r_requester_id (pr_doc p) = id_of idt)))
   \<and> (role_of idt = ''donor'' \<and> findById u_id (users s) (id_of idt) = Some d
         \<and> u_region d = Some g \<and> g \<noteq> [] \<longrightarrow>
      (\<exists>rs. res_data (listRequests idt s) = Some rs
            \<and> (\<forall>p \<in> set rs. r_region (pr_doc p) = g)))
   \<and> (\<forall>rs p. role_of idt = ''donor'' \<and> findById u_id (users s) (id_of idt) = Some d
         \<and> u_region d = Some g \<and> res_data (listRequests idt s) = Some rs \<and> p \<in> set rs \<longrightarrow>
         r_region (pr_doc p) = g)"
  by (auto simp: listRequests_def sendResponse_def truthy_def set_sort_desc populate_def
        split: if_splits)

theorem listRequests_role_scoped_witness:
  "role_of (as_user alice) = ''user''
   \<and> (\<exists>rs. res_data (listRequests (as_user alice) sample) = Some rs
           \<and> (\<forall>p \<in> set rs. r_requester_id (pr_doc p) = 1))
   \<and> map pr_doc (the (res_data (listRequests (as_user alice) sample))) = [req2, req1]
   \<and> role_of (as_user dave) = ''donor''
   \<and> (\<exists>rs. res_data (listRequests (as_user dave) sample) = Some rs
           \<and> (\<forall>p \<in> set rs. r_region (pr_doc p) = ''East''))
   \<and> map pr_doc (the (res_data (listRequests (as_user dave) sample))) = [req2, req3]"
proof -
  have roles: "role_of (as_user alice) = ''user''" "role_of (as_user dave) = ''donor''"
    by (simp_all add: sample_defs)
  have dv: "findById u_id (users sample) (id_of (as_user dave)) = Some dave"
      "u_region dave = Some ''East''"
    by (simp_all add: findById_def sample_defs)
  have me: "id_of (as_user alice) = 1"
    by (simp add: sample_defs)
  have evals: "map pr_doc (the (res_data (listRequests (as_user alice) sample))) = [req2, req1]"
      "map pr_doc (the (res_data (listRequests (as_user dave) sample))) = [req2, req3]"
    by (simp_all add: listRequests_def sendResponse_def sort_desc_def truthy_def findById_def
          populate_def sample_defs)
  have w1: "\<exists>rs. res_data (listRequests (as_user alice) sample) = Some rs
           \<and> (\<forall>p \<in> set rs. r_requester_id (pr_doc p) = 1)"
    using listRequests_role_scoped [where idt = "as_user alice" and s = sample] roles(1)
    unfolding me by blast
  have w2: "\<exists>rs. res_data (listRequests (as_user dave) sample) = Some rs
           \<and> (\<forall>p \<in> set rs. r_region (pr_doc p) = ''East'')"
    using listRequests_role_scoped [where idt = "as_user dave" and s = sample and d = dave
        and g = "''East''"] roles(2) dv
    by simp
  from roles w1 w2 evals show ?thesis
    by blast
qed

section \<open>Listing notifications\<close>

lemma listNotifications_found:
  "findById u_id (users s) (id_of idt) = Some u \<Longrightarrow>
   res_data (listNotifications idt s)
     = Some (sort_desc n_createdAt (filter (notification_query u) (notifications s)))
   \<and> res_success (listNotifications idt s)"
  by (simp add: listNotifications_def sendResponse_def)

text \<open>
  C6. For a caller whose User record exists, \<open>listNotifications\<close> returns the visible
  notifications newest first, and exactly those: all of them for an administrator; for a
  donor with a region, those with role all and those with role donor and the caller's
  region; for every other caller (a donor without a region included), those with role all
  and those whose role is the caller's role and whose region is the caller's region, an
  absent region matching an absent region.
\<close>

theorem listNotifications_visibility:
  assumes "findById u_id (users s) (id_of idt) = Some u"
  shows "\<exists>ns. res_data (listNotifications idt s) = Some ns
          \<and> newest_first n_createdAt ns
          \<and> (u_role u = ''admin'' \<longrightarrow> mset ns = mset (notifications s))
          \<and> (\<forall>g. u_role u = ''donor'' \<and> u_region u = Some g \<and> g \<noteq> [] \<longrightarrow>
                mset ns = mset (filter (\<lambda>n. n_role n = ''all''
                            \<or> (n_role n = ''donor'' \<and> n_region n = Some g)) (notifications s)))
          \<and> (u_role u \<noteq> ''admin'' \<and> \<not> (u_role u = ''donor'' \<and> truthy (u_region u)) \<longrightarrow>
                mset ns = mset (filter (\<lambda>n. n_role n = ''all''
                            \<or> (n_role n = u_role u \<and> n_region n = u_region u)) (notifications s)))"
proof -
  let ?ns = "sort_desc n_createdAt (filter (notification_query u) (notifications s))"
  have dat: "res_data (listNotifications idt s) = Some ?ns"
    using listNotifications_found [OF assms] by simp
  have srt: "newest_first n_createdAt ?ns"
    by (rule newest_first_sort_desc)
  have adm: "u_role u = ''admin'' \<Longrightarrow> notification_query u = (\<lambda>n. True)"
    by (simp add: notification_query_def fun_eq_iff)
  have dnr: "u_role u = ''donor'' \<and> u_region u = Some g \<and> g \<noteq> [] \<Longrightarrow>
      notification_query u = (\<lambda>n. n_role n = ''all'' \<or> (n_role n = ''donor'' \<and> n_region n = Some g))" for g
    by (auto simp: notification_query_def fun_eq_iff truthy_def)
  have oth: "u_role u \<noteq> ''admin'' \<and> \<not> (u_role u = ''donor'' \<and> truthy (u_region u)) \<Longrightarrow>
      notification_query u = (\<lambda>n. n_role n = ''all'' \<or> (n_role n = u_role u \<and> n_region n = u_region u))"
    by (auto simp: notification_query_def fun_eq_iff)
  have A: "u_role u = ''admin'' \<longrightarrow> mset ?ns = mset (notifications s)"
  proof
    assume r: "u_role u = ''admin''"
    show "mset ?ns = mset (notifications s)"
      by (simp add: adm [OF r] mset_sort_desc)
  qed
  have B: "\<forall>g. u_role u = ''donor'' \<and> u_region u = Some g \<and> g \<noteq> [] \<longrightarrow>
                mset ?ns = mset (filter (\<lambda>n. n_role n = ''all''
                            \<or> (n_role n = ''donor'' \<and> n_region n = Some g)) (notifications s))"
  proof (intro allI impI)
    fix g
    assume r: "u_role u = ''donor'' \<and> u_region u = Some g \<and> g \<noteq> []"
    show "mset ?ns = mset (filter (\<lambda>n. n_role n = ''all''
                            \<or> (n_role n = ''donor'' \<and> n_region n = Some g)) (notifications s))"
      by (simp only: dnr [OF r] mset_sort_desc)
  qed
  have C: "u_role u \<noteq> ''admin'' \<and> \<not> (u_role u = ''donor'' \<and> truthy (u_region u)) \<longrightarrow>
                mset ?ns = mset (filter (\<lambda>n. n_role n = ''all''
                            \<or> (n_role n = u_role u \<and> n_region n = u_region u)) (notifications s))"
  proof
    assume r: "u_role u \<noteq> ''admin'' \<and> \<not> (u_role u = ''donor'' \<and> truthy (u_region u))"
    show "mset ?ns = mset (filter (\<lambda>n. n_role n = ''all''
                            \<or> (n_role n = u_role u \<and> n_region n = u_region u)) (notifications s))"
      by (simp only: oth [OF r] mset_sort_desc)
  qed
  from dat srt A B C show ?thesis
    by blast
qed


lemmas notification_defs = listNotifications_def notification_query_def sendResponse_def
  sort_desc_def truthy_def findById_def

theorem listNotifications_visibility_witness:
  "findById u_id (users sample) (id_of (as_user root)) = Some root
   \<and> res_data (listNotifications (as_user root) sample) =
       Some [notice ''user'' (Some ''North'') 40, notice ''donor'' (Some ''North'') 30,
             notice ''donor'' (Some ''East'') 20, notice ''all'' None 10, notice ''donor'' None 5]
   \<and> res_data (listNotifications (as_user bob) sample) =
       Some [notice ''donor'' (Some ''North'') 30, notice ''all'' None 10]
   \<and> res_data (listNotifications (as_user erin) sample) =
       Some [notice ''all'' None 10, notice ''donor'' None 5]
   \<and> res_data (listNotifications (as_user alice) sample) =
       Some [notice ''user'' (Some ''North'') 40, notice ''all'' None 10]
   \<and> (\<exists>ns. res_data (listNotifications (as_user root) sample) = Some ns
          \<and> newest_first n_createdAt ns \<and> mset ns = mset (notifications sample))
   \<and> (\<exists>ns. res_data (listNotifications (as_user bob) sample) = Some ns
          \<and> newest_first n_createdAt ns
          \<and> mset ns = mset (filter (\<lambda>n. n_role n = ''all''
                 \<or> (n_role n = ''donor'' \<and> n_region n = Some ''North'')) (notifications sample)))
   \<and> (\<exists>ns. res_data (listNotifications (as_user erin) sample) = Some ns
          \<and> newest_first n_createdAt ns
          \<and> mset ns = mset (filter (\<lambda>n. n_role n = ''all''
                 \<or> (n_role n = ''donor'' \<and> n_region n = None)) (notifications sample)))"
proof -
  have f: "findById u_id (users sample) (id_of (as_user root)) = Some root"
      "findById u_id (users sample) (id_of (as_user bob)) = Some bob"
      "findById u_id (users sample) (id_of (as_user erin)) = Some erin"
    by (simp_all add: findById_def sample_defs)
  have evals:
    "res_data (listNotifications (as_user root) sample) =
       Some [notice ''user'' (Some ''North'') 40, notice ''donor'' (Some ''North'') 30,
             notice ''donor'' (Some ''East'') 20, notice ''all'' None 10, notice ''donor'' None 5]"
    "res_data (listNotifications (as_user bob) sample) =
       Some [notice ''donor'' (Some ''North'') 30, notice ''all'' None 10]"
    "res_data (listNotifications (as_user erin) sample) =
       Some [notice ''all'' None 10, notice ''donor'' None 5]"
    "res_data (listNotifications (as_user alice) sample) =
       Some [notice ''user'' (Some ''North'') 40, notice ''all'' None 10]"
    by (simp_all add: notification_defs sample_defs)
  have r: "u_role root = ''admin''"
    by (simp add: root_def)
  have b: "u_role bob = ''donor'' \<and> u_region bob = Some ''North'' \<and> ''North'' \<noteq> []"
    by (simp add: bob_def)
  have e: "u_role erin \<noteq> ''admin'' \<and> \<not> (u_role erin = ''donor'' \<and> truthy (u_region erin))"
      "u_role erin = ''donor''" "u_region erin = None"
    by (simp_all add: erin_def truthy_def)
  have w1: "\<exists>ns. res_data (listNotifications (as_user root) sample) = Some ns
          \<and> newest_first n_createdAt ns \<and> mset ns = mset (notifications sample)"
    using listNotifications_visibility [OF f(1)] r by blast
  have w2: "\<exists>ns. res_data (listNotifications (as_user bob) sample) = Some ns
          \<and> newest_first n_createdAt ns
          \<and> mset ns = mset (filter (\<lambda>n. n_role n = ''all''
                 \<or> (n_role n = ''donor'' \<and> n_region n = Some ''North'')) (notifications sample))"
    using listNotifications_visibility [OF f(2)] b by blast
  have w3: "\<exists>ns. res_data (listNotifications (as_user erin) sample) = Some ns
          \<and> newest_first n_createdAt ns
          \<and> mset ns = mset (filter (\<lambda>n. n_role n = ''all''
                 \<or> (n_role n = ''donor'' \<and> n_region n = None)) (notifications sample))"
    using listNotifications_visibility [OF f(3)] e(1) unfolding e(2,3) by blast
  from f(1) evals w1 w2 w3 show ?thesis
    by blast
qed

section \<open>Searching donors\<close>

text \<open>
  C8. For an admin or user caller, \<open>searchDonors\<close> with a blood-type filter \<open>bt\<close> (and a
  name filter, if one is given, that is a regular expression) succeeds with status 200.
  Every hit is a stored user with role donor and blood type \<open>bt\<close>, annotated with the
  availability of that user's Donor document (absent when the user has none); with no
  other filter the hits are all such users; and when no donor-role user has blood type
  \<open>bt\<close> the result is the empty sequence, still with \<open>success = true\<close>.
\<close>

theorem searchDonors_by_blood_type:
  assumes "role_of idt = ''admin'' \<or> role_of idt = ''user''"
    and "dq_blood_type q = Some bt" and "bt \<noteq> []"
    and "truthy (dq_name q) \<longrightarrow> regExp (or_default (dq_name q) []) \<noteq> None"
  shows "\<exists>hs. res_data (searchDonors regExp idt q s) = Some hs
          \<and> res_success (searchDonors regExp idt q s)
          \<and> res_status (searchDonors regExp idt q s) = 200
          \<and> (\<forall>h \<in> set hs. h_role h = ''donor'' \<and> h_blood_type h = bt
                \<and> h_id h \<in> u_id ` set (users s)
                \<and> h_availability h =
                    map_option d_availability (List.find (\<lambda>d. d_user_id d = h_id h) (donors s)))
          \<and> ((\<forall>u \<in> set (users s). \<not> (u_role u = ''donor'' \<and> u_blood_type u = bt)) \<longrightarrow> hs = [])
          \<and> (\<not> truthy (dq_name q) \<and> \<not> truthy (dq_region q) \<longrightarrow>
                map h_id hs = map u_id (sort_key u_full_name
                   (filter (\<lambda>u. u_role u = ''donor'' \<and> u_blood_type u = bt) (users s))))"
proof -
  obtain m where m: "(if truthy (dq_name q) then regExp (or_default (dq_name q) [])
                      else Some (\<lambda>_. True)) = Some m"
    using assms(4) by (cases "truthy (dq_name q)") auto
  let ?found = "sort_key u_full_name (filter (userQuery q m) (users s))"
  let ?hs = "map (with_availability (donors s)) ?found"
  have gate: "restrictTo [''admin'', ''user''] idt"
    using assms(1) by (auto simp: restrictTo_def)
  have res: "res_data (searchDonors regExp idt q s) = Some ?hs
        \<and> res_success (searchDonors regExp idt q s)
        \<and> res_status (searchDonors regExp idt q s) = 200"
    using gate m by (simp add: searchDonors_def sendResponse_def Let_def)
  have bt: "truthy (dq_blood_type q)"
    using assms(2,3) by (simp add: truthy_def)
  have q: "userQuery q m u \<Longrightarrow> u_role u = ''donor'' \<and> u_blood_type u = bt" for u
    using bt assms(2) by (simp add: userQuery_def)
  have hits: "\<forall>h \<in> set ?hs. h_role h = ''donor'' \<and> h_blood_type h = bt
                \<and> h_id h \<in> u_id ` set (users s)
                \<and> h_availability h =
                    map_option d_availability (List.find (\<lambda>d. d_user_id d = h_id h) (donors s))"
    using q by (auto simp: with_availability_def split: option.splits)
  have none: "(\<forall>u \<in> set (users s). \<not> (u_role u = ''donor'' \<and> u_blood_type u = bt)) \<longrightarrow> ?hs = []"
  proof
    assume "\<forall>u \<in> set (users s). \<not> (u_role u = ''donor'' \<and> u_blood_type u = bt)"
    then have "filter (userQuery q m) (users s) = []"
      using q by (auto simp: filter_empty_conv)
    then show "?hs = []"
      by simp
  qed
  have only: "\<not> truthy (dq_name q) \<and> \<not> truthy (dq_region q) \<Longrightarrow>
      userQuery q m = (\<lambda>u. u_role u = ''donor'' \<and> u_blood_type u = bt)"
    using bt assms(2) by (auto simp: userQuery_def fun_eq_iff)
  have all: "\<not> truthy (dq_name q) \<and> \<not> truthy (dq_region q) \<longrightarrow>
                map h_id ?hs = map u_id (sort_key u_full_name
                   (filter (\<lambda>u. u_role u = ''donor'' \<and> u_blood_type u = bt) (users s)))"
  proof
    assume r: "\<not> truthy (dq_name q) \<and> \<not> truthy (dq_region q)"
    show "map h_id ?hs = map u_id (sort_key u_full_name
                   (filter (\<lambda>u. u_role u = ''donor'' \<and> u_blood_type u = bt) (users s)))"
      unfolding only [OF r] by (simp add: with_availability_def)
  qed
  from res hits none all show ?thesis
    by blast
qed

theorem searchDonors_by_blood_type_witness:
  "(role_of (as_user alice) = ''admin'' \<or> role_of (as_user alice) = ''user'')
   \<and> res_data (searchDonors (\<lambda>p. None) (as_user alice) (by_type ''O+'') sample)
       = Some [hit bob (Some True), hit carol (Some False)]
   \<and> res_data (searchDonors (\<lambda>p. None) (as_user alice) (by_type ''A+'') sample)
       = Some [hit dave (Some True), hit erin None]
   \<and> res_data (searchDonors (\<lambda>p. None) (as_user alice) (by_type ''B-'') sample) = Some []
   \<and> res_success (searchDonors (\<lambda>p. None) (as_user alice) (by_type ''B-'') sample)
   \<and> (\<exists>hs. res_data (searchDonors (\<lambda>p. None) (as_user alice) (by_type ''O+'') sample) = Some hs
          \<and> (\<forall>h \<in> set hs. h_role h = ''donor'' \<and> h_blood_type h = ''O+''))"
proof -
  have u: "role_of (as_user alice) = ''admin'' \<or> role_of (as_user alice) = ''user''"
    by (simp add: sample_defs)
  have q: "dq_blood_type (by_type bt) = Some bt" "\<not> truthy (dq_name (by_type bt))" for bt
    by (simp_all add: by_type_def truthy_def)
  have evals:
    "res_data (searchDonors (\<lambda>p. None) (as_user alice) (by_type ''O+'') sample)
       = Some [hit bob (Some True), hit carol (Some False)]"
    "res_data (searchDonors (\<lambda>p. None) (as_user alice) (by_type ''A+'') sample)
       = Some [hit dave (Some True), hit erin None]"
    by (simp_all add: searchDonors_def restrictTo_def truthy_def userQuery_def
          with_availability_def sendResponse_def less_eq_char_def less_char_def sample_defs)
  have none: "\<forall>u \<in> set (users sample). \<not> (u_role u = ''donor'' \<and> u_blood_type u = ''B-'')"
    by (simp add: sample_defs)
  have w1: "res_data (searchDonors (\<lambda>p. None) (as_user alice) (by_type ''B-'') sample) = Some []
      \<and> res_success (searchDonors (\<lambda>p. None) (as_user alice) (by_type ''B-'') sample)"
    using searchDonors_by_blood_type [OF u q(1), where regExp = "\<lambda>p. None" and s = sample] q(2) none
    by fastforce
  have w2: "\<exists>hs. res_data (searchDonors (\<lambda>p. None) (as_user alice) (by_type ''O+'') sample) = Some hs
          \<and> (\<forall>h \<in> set hs. h_role h = ''donor'' \<and> h_blood_type h = ''O+'')"
    using searchDonors_by_blood_type [OF u q(1), where regExp = "\<lambda>p. None" and s = sample] q(2)
    by fastforce
  from u evals w1 w2 show ?thesis
    by blast
qed

section \<open>Whole numbers as doubles\<close>











section \<open>Recording a donation\<close>





end
